theory Spec2Isabelle
  imports Main "HOL-Library.Word" "HOL-Library.Sublist"
begin

unbundle bit_operations_syntax

section \<open>Bytes, errors and the external collaborators\<close>

type_synonym byte = "8 word"
type_synonym bytes = "byte list"
type_synonym uint64 = "64 word"

text \<open>
  Go error values and run-time panics. \<open>Upstream\<close> is any error value produced by the
  ebmlstream library (tokenizer, \<open>Elem.Bytes\<close>, varint); \<open>ImpossibleTrack\<close> is the
  \<open>fmt.Errorf("impossible track number %d", ...)\<close> of the keeper; \<open>Panic\<close> is an
  index or slice expression out of range (it is not an error return).
\<close>

datatype error = StreamEnded | Upstream string | ImpossibleTrack uint64 | Panic

text \<open>
  \<open>edtd.Elem\<close> of the ebmlstream library: the fields the code reads, the result of
  \<open>e.Bytes()\<close> and the bytes \<open>e.WriteTo\<close> puts on a writer.
\<close>

record Elem =
  Name :: string
  Level :: uint64
  Bytes :: "error + bytes"
  WriteTo :: bytes

text \<open>
  The varint package of the ebmlstream library is a parameter of the decoder: \<open>Parse\<close>
  gives a value of the library's type, \<open>Uint64\<close> and \<open>Size\<close> read it, each may fail.
\<close>

record 'v varint =
  Parse :: "bytes \<Rightarrow> error + 'v"
  Uint64 :: "'v \<Rightarrow> error + uint64"
  Size :: "'v \<Rightarrow> error + int"

text \<open>Go's \<open>xs[i]\<close> and \<open>xs[n:]\<close>: both panic out of range.\<close>

definition at :: "'a list \<Rightarrow> nat \<Rightarrow> error + 'a" where
  "at xs i = (if i < length xs then Inr (xs ! i) else Inl Panic)"

definition slice_from :: "'a list \<Rightarrow> int \<Rightarrow> error + 'a list" where
  "slice_from xs n =
     (if 0 \<le> n \<and> n \<le> int (length xs) then Inr (drop (nat n) xs) else Inl Panic)"

text \<open>The idiom \<open>x, err := f(); if err != nil { return nil, err }\<close>: the first
  failure is the result, otherwise the rest runs on the value.\<close>

definition andThen :: "error + 'a \<Rightarrow> ('a \<Rightarrow> error + 'b) \<Rightarrow> error + 'b" where
  "andThen r f = (case r of Inl e \<Rightarrow> Inl e | Inr x \<Rightarrow> f x)"

section \<open>Package webm: the block decoder\<close>

type_synonym LacingMode = byte

definition None_lacing :: LacingMode where "None_lacing = 0"
definition Xiph :: LacingMode where "Xiph = 1"
definition FixedSize :: LacingMode where "FixedSize = 2"
definition EBML :: LacingMode where "EBML = 3"

record SimpleBlock =
  TrackNumber :: uint64
  Timecode :: "16 word"
  Keyframe :: bool
  Invisible :: bool
  Discardable :: bool
  Lacing :: LacingMode

definition parseAsSimpleBlock :: "'v varint \<Rightarrow> bytes \<Rightarrow> error + SimpleBlock" where
  "parseAsSimpleBlock V data =
     andThen (Parse V data) (\<lambda>trackNumber.
     andThen (Uint64 V trackNumber) (\<lambda>trackNumber64.
     andThen (Size V trackNumber) (\<lambda>trackNumberSize.
     andThen (slice_from data trackNumberSize) (\<lambda>data1.
     andThen (at data1 1) (\<lambda>d1.
     andThen (at data1 0) (\<lambda>d0.
     andThen (slice_from data1 2) (\<lambda>data2.
     andThen (at data2 0) (\<lambda>flags.
       Inr \<lparr> TrackNumber = trackNumber64,
             Timecode = ucast d1 OR push_bit 8 (ucast d0),
             Keyframe = (flags AND 0x80 = 0x80),
             Invisible = (flags AND 0x08 = 0x08),
             Discardable = (flags AND 0x01 = 0x01),
             Lacing = drop_bit 4 flags AND 3 \<rparr>))))))))"

definition NewSimpleBlock :: "'v varint \<Rightarrow> Elem \<Rightarrow> error + SimpleBlock" where
  "NewSimpleBlock V e = andThen (Bytes e) (parseAsSimpleBlock V)"

record Block =
  TrackNumber :: uint64
  Timecode :: "16 word"
  Keyframe :: bool
  Invisible :: bool
  Lacing :: LacingMode

text \<open>The inner \<open>for\<close> of the Xiph branch: drop bytes up to and including the first one
  below 255; reading past the end panics.\<close>

fun xiph_frame :: "bytes \<Rightarrow> error + bytes" where
  "xiph_frame [] = Inl Panic"
| "xiph_frame (throwaway # data) = (if throwaway < 255 then Inr data else xiph_frame data)"

text \<open>The outer loops, with the source's byte counter \<open>i\<close>.\<close>

function xiph_loop :: "byte \<Rightarrow> byte \<Rightarrow> bytes \<Rightarrow> error + bytes" where
  "xiph_loop i numLaceFrames data =
     (if i < numLaceFrames
      then (case xiph_frame data of Inl e \<Rightarrow> Inl e
            | Inr data' \<Rightarrow> xiph_loop (i + 1) numLaceFrames data')
      else Inr data)"
  by pat_completeness auto
termination
proof (relation "measure (\<lambda>(i, n, d). unat n - unat i)")
  show "wf (measure (\<lambda>(i :: byte, n :: byte, d :: bytes). unat n - unat i))" by simp
next
  fix i numLaceFrames :: byte and data x2 :: bytes
  assume "i < numLaceFrames"
  then have "unat numLaceFrames - unat (i + 1) < unat numLaceFrames - unat i"
    by unat_arith
  then show "((i + 1, numLaceFrames, x2), (i, numLaceFrames, data))
      \<in> measure (\<lambda>(i, n, d). unat n - unat i)" by simp
qed

declare xiph_loop.simps [simp del]

text \<open>One step of the EBML branch: parse a varint at the front and slice it off.\<close>

definition ebml_frame :: "'v varint \<Rightarrow> bytes \<Rightarrow> error + bytes" where
  "ebml_frame V data =
     andThen (Parse V data) (\<lambda>throwaway.
     andThen (Size V throwaway) (\<lambda>throwawaySize.
       slice_from data throwawaySize))"

function ebml_loop :: "'v varint \<Rightarrow> byte \<Rightarrow> byte \<Rightarrow> bytes \<Rightarrow> error + bytes" where
  "ebml_loop V i numLaceFrames data =
     (if i < numLaceFrames
      then (case ebml_frame V data of Inl e \<Rightarrow> Inl e
            | Inr data' \<Rightarrow> ebml_loop V (i + 1) numLaceFrames data')
      else Inr data)"
  by pat_completeness auto
termination
proof (relation "measure (\<lambda>(V, i, n, d). unat n - unat i)")
  show "wf (measure (\<lambda>(V :: 'v varint, i :: byte, n :: byte, d :: bytes). unat n - unat i))"
    by simp
next
  fix V :: "'v varint" and i numLaceFrames :: byte and data x4 :: bytes
  assume "i < numLaceFrames"
  then have "unat numLaceFrames - unat (i + 1) < unat numLaceFrames - unat i"
    by unat_arith
  then show "((V, i + 1, numLaceFrames, x4), (V, i, numLaceFrames, data))
      \<in> measure (\<lambda>(V, i, n, d). unat n - unat i)" by simp
qed

declare ebml_loop.simps [simp del]

text \<open>The \<open>if b.Lacing > 0\<close> block: the frame count byte, then the preambles.\<close>

definition skip_lacing :: "'v varint \<Rightarrow> LacingMode \<Rightarrow> bytes \<Rightarrow> error + bytes" where
  "skip_lacing V lacing data =
     (if lacing > 0
      then andThen (at data 0) (\<lambda>numLaceFrames.
           andThen (slice_from data 1) (\<lambda>data'.
             if lacing = Xiph then xiph_loop 0 numLaceFrames data'
             else if lacing = EBML then ebml_loop V 0 numLaceFrames data'
             else Inr data'))
      else Inr data)"

definition parseAsBlock :: "'v varint \<Rightarrow> bytes \<Rightarrow> error + Block" where
  "parseAsBlock V data =
     andThen (Parse V data) (\<lambda>trackNumber.
     andThen (Uint64 V trackNumber) (\<lambda>trackNumber64.
     andThen (Size V trackNumber) (\<lambda>trackNumberSize.
     andThen (slice_from data trackNumberSize) (\<lambda>data1.
     andThen (at data1 1) (\<lambda>d1.
     andThen (at data1 0) (\<lambda>d0.
     andThen (slice_from data1 2) (\<lambda>data2.
     andThen (at data2 0) (\<lambda>flags.
     andThen (slice_from data2 1) (\<lambda>data3.
     andThen (skip_lacing V (drop_bit 4 flags AND 3) data3) (\<lambda>data4.
     andThen (at data4 2) (\<lambda>k.
       Inr \<lparr> TrackNumber = trackNumber64,
             Timecode = ucast d1 OR push_bit 8 (ucast d0),
             Keyframe = (k AND 0x01 = 0x00),
             Invisible = (flags AND 0x08 = 0x08),
             Lacing = drop_bit 4 flags AND 3 \<rparr>)))))))))))"

definition NewBlock :: "'v varint \<Rightarrow> Elem \<Rightarrow> error + Block" where
  "NewBlock V e = andThen (Bytes e) (parseAsBlock V)"

definition AsKeyBlock :: "'v varint \<Rightarrow> Elem \<Rightarrow> error + (uint64 \<times> bool)" where
  "AsKeyBlock V e =
     (if Name e = ''SimpleBlock''
      then andThen (NewSimpleBlock V e)
             (\<lambda>s. Inr (SimpleBlock.TrackNumber s, SimpleBlock.Keyframe s))
      else if Name e = ''Block''
      then andThen (NewBlock V e)
             (\<lambda>b. Inr (Block.TrackNumber b, Block.Keyframe b))
      else Inr (0, False))"

section \<open>Package webmkeeper\<close>

text \<open>
  Modelled from the spec: the EBML tokenizer (\<open>edtd.Parser\<close> of the ebmlstream library) is
  the lazy sequence of what its \<open>Next\<close> returns, in document order; once the source is
  exhausted it fails with \<open>StreamEnded\<close>.
\<close>

type_synonym Parser = "(error + Elem) list"

text \<open>The function \<open>next\<close> of the keeper: the loop around \<open>p.Next()\<close>, one equation for
  each outcome of \<open>p.Next()\<close>. Nothing assigns \<open>skipLevel\<close> but its reset to 0.\<close>

fun next_loop :: "uint64 \<Rightarrow> Parser \<Rightarrow> (error + Elem) \<times> Parser" where
  "next_loop skipLevel [] = (Inl StreamEnded, [])"
| "next_loop skipLevel (Inl err # rest) = (Inl err, rest)"
| "next_loop skipLevel (Inr el # rest) =
     (if skipLevel > 0 \<and> Level el > skipLevel then next_loop skipLevel rest
      else (Inr el, rest))"

definition next_el :: "Parser \<Rightarrow> (error + Elem) \<times> Parser" where
  "next_el src = next_loop 0 src"

text \<open>A Go array \<open>[2]T\<close>, indexed by a \<open>uint64\<close>; an index above 1 panics.\<close>

datatype 'a array2 = Array2 'a 'a

fun index2 :: "'a array2 \<Rightarrow> uint64 \<Rightarrow> error + 'a" where
  "index2 (Array2 a b) i = (if i = 0 then Inr a else if i = 1 then Inr b else Inl Panic)"

fun update2 :: "'a array2 \<Rightarrow> uint64 \<Rightarrow> 'a \<Rightarrow> error + 'a array2" where
  "update2 (Array2 a b) i v =
     (if i = 0 then Inr (Array2 v b) else if i = 1 then Inr (Array2 a v) else Inl Panic)"

record WebmKeeper =
  p :: Parser
  header :: bytes
  body :: bytes
  elemBuf :: bytes
  lastCluster :: nat
  trackBlockCount :: "byte array2"
  trackBlockKeyframe :: "bool array2"

lemma next_loop_shorter:
  "next_loop skipLevel src = (Inr el, rest) \<Longrightarrow> length rest < length src"
  by (induction skipLevel src rule: next_loop.induct) (auto split: if_splits)

function New_loop :: "Parser \<Rightarrow> bytes \<Rightarrow> bytes \<Rightarrow> error + (Parser \<times> bytes \<times> bytes)" where
  "New_loop src hdr bdy =
     (case next_el src of
        (Inl err, rest) \<Rightarrow> Inl err
      | (Inr el, rest) \<Rightarrow>
          if Name el = ''Cluster'' then Inr (rest, hdr, bdy @ WriteTo el)
          else New_loop rest (hdr @ WriteTo el) bdy)"
  by pat_completeness auto
termination
  by (relation "measure (\<lambda>(src, hdr, bdy). length src)")
     (auto simp: next_el_def dest: next_loop_shorter [OF sym])

declare New_loop.simps [simp del]

definition New :: "Parser \<Rightarrow> error + WebmKeeper" where
  "New r =
     (case New_loop r [] [] of
        Inl err \<Rightarrow> Inl err
      | Inr (rest, hdr, bdy) \<Rightarrow>
          Inr \<lparr> p = rest, header = hdr, body = bdy, elemBuf = [], lastCluster = 0,
                trackBlockCount = Array2 0 0, trackBlockKeyframe = Array2 False False \<rparr>)"

text \<open>\<open>Bootstrap\<close> writes to an \<open>io.Writer\<close>: a state \<open>'w\<close> with its \<open>Write\<close>.\<close>

definition Bootstrap ::
  "('w \<Rightarrow> bytes \<Rightarrow> error option \<times> 'w) \<Rightarrow> WebmKeeper \<Rightarrow> 'w \<Rightarrow> error option \<times> 'w" where
  "Bootstrap Write wk w =
     (case Write w (header wk) of
        (Some err, w1) \<Rightarrow> (Some err, w1)
      | (None, w1) \<Rightarrow>
          (case Write w1 (body wk) of
             (Some err, w2) \<Rightarrow> (Some err, w2)
           | (None, w2) \<Rightarrow> (None, w2)))"

definition resetTracking :: "WebmKeeper \<Rightarrow> WebmKeeper" where
  "resetTracking wk =
     wk\<lparr>trackBlockCount := Array2 0 0, trackBlockKeyframe := Array2 False False\<rparr>"

definition incTrackCount :: "WebmKeeper \<Rightarrow> uint64 \<Rightarrow> error + WebmKeeper" where
  "incTrackCount wk trackNumber =
     andThen (index2 (trackBlockCount wk) trackNumber) (\<lambda>c.
       if c < 255
       then andThen (update2 (trackBlockCount wk) trackNumber (c + 1)) (\<lambda>a.
              Inr (wk\<lparr>trackBlockCount := a\<rparr>))
       else Inr wk)"

text \<open>The statement \<open>if keyframe { wk.trackBlockKeyframe[trackNumber] = true }\<close>.\<close>

definition setKeyframe :: "WebmKeeper \<Rightarrow> uint64 \<Rightarrow> bool \<Rightarrow> error + WebmKeeper" where
  "setKeyframe wk trackNumber keyframe =
     (if keyframe
      then andThen (update2 (trackBlockKeyframe wk) trackNumber True) (\<lambda>a.
             Inr (wk\<lparr>trackBlockKeyframe := a\<rparr>))
      else Inr wk)"

text \<open>The last \<open>if\<close> of the block case: \<open>make\<close> with a negative length panics, so does the
  slice expression.\<close>

definition cutAtLastCluster :: "WebmKeeper \<Rightarrow> error option \<times> WebmKeeper" where
  "cutAtLastCluster wk =
     (if trackBlockCount wk = Array2 1 1 \<and> trackBlockKeyframe wk = Array2 True True
      then (if length (body wk) < lastCluster wk then (Some Panic, wk)
            else (None, wk\<lparr>body := drop (lastCluster wk) (body wk), lastCluster := 0\<rparr>))
      else (None, wk))"

definition handleRandomAccessPoint ::
  "'v varint \<Rightarrow> WebmKeeper \<Rightarrow> Elem \<Rightarrow> error option \<times> WebmKeeper" where
  "handleRandomAccessPoint V wk el =
     (if Name el = ''Cluster''
      then (None, resetTracking (wk\<lparr>lastCluster := length (body wk)\<rparr>))
      else if Name el = ''SimpleBlock'' \<or> Name el = ''Block''
      then (case AsKeyBlock V el of
              Inl err \<Rightarrow> (Some err, wk)
            | Inr (trackNumber, keyframe) \<Rightarrow>
                if trackNumber > 2 \<or> trackNumber < 1
                then (Some (ImpossibleTrack trackNumber), wk)
                else (case andThen (incTrackCount wk (trackNumber - 1))
                             (\<lambda>wk1. setKeyframe wk1 (trackNumber - 1) keyframe) of
                        Inl err \<Rightarrow> (Some err, wk)
                      | Inr wk2 \<Rightarrow> cutAtLastCluster wk2))
      else (None, wk))"

definition Next :: "'v varint \<Rightarrow> WebmKeeper \<Rightarrow> (error + bytes) \<times> WebmKeeper" where
  "Next V wk =
     (case next_el (p wk) of
        (Inl err, rest) \<Rightarrow> (Inl err, wk\<lparr>p := rest\<rparr>)
      | (Inr el, rest) \<Rightarrow>
          (case handleRandomAccessPoint V (wk\<lparr>p := rest\<rparr>) el of
             (Some err, wk1) \<Rightarrow> (Inl err, wk1)
           | (None, wk1) \<Rightarrow>
               (Inr (WriteTo el), wk1\<lparr>elemBuf := WriteTo el, body := body wk1 @ WriteTo el\<rparr>)))"

text \<open>The publisher's loop over \<open>Next\<close>: \<open>n\<close> calls, stopping at the first failure.\<close>

fun Nexts :: "'v varint \<Rightarrow> nat \<Rightarrow> WebmKeeper \<Rightarrow> error option \<times> WebmKeeper" where
  "Nexts V 0 wk = (None, wk)"
| "Nexts V (Suc n) wk =
     (case Next V wk of
        (Inl err, wk1) \<Rightarrow> (Some err, wk1)
      | (Inr b, wk1) \<Rightarrow> Nexts V n wk1)"

text \<open>The operations on a keeper, in any order. \<open>Bootstrap\<close> only reads the buffers
  (\<open>header.Bytes()\<close>, \<open>body.Bytes()\<close>), so it leaves the keeper as it is.\<close>

datatype keeper_op = OpNext | OpHandle Elem | OpBootstrap

fun apply_op :: "'v varint \<Rightarrow> WebmKeeper \<Rightarrow> keeper_op \<Rightarrow> WebmKeeper" where
  "apply_op V wk OpNext = snd (Next V wk)"
| "apply_op V wk (OpHandle el) = snd (handleRandomAccessPoint V wk el)"
| "apply_op V wk OpBootstrap = wk"

section \<open>Notions of the specification\<close>

text \<open>The saturating increment with cap 255 of the specification.\<close>

definition sat_inc :: "byte \<Rightarrow> byte" where
  "sat_inc c = (if c = 255 then 255 else c + 1)"

text \<open>The track a block element is decoded to, when it is one and decodes.\<close>

definition block_track :: "'v varint \<Rightarrow> Elem \<Rightarrow> uint64 option" where
  "block_track V el =
     (if Name el = ''SimpleBlock'' \<or> Name el = ''Block''
      then (case AsKeyBlock V el of Inl err \<Rightarrow> None | Inr (t, kf) \<Rightarrow> Some t)
      else None)"

section \<open>Concrete inputs\<close>

text \<open>
  Modelled from the spec: the EBML varint of the ebmlstream library (its width is given by
  the highest set bit of the leading byte, the marker bit is stripped, the rest is read
  big-endian), to run the decoder on concrete payloads.
\<close>

definition varint_width :: "byte \<Rightarrow> nat" where
  "varint_width b =
     (if b \<ge> 0x80 then 1 else if b \<ge> 0x40 then 2 else if b \<ge> 0x20 then 3
      else if b \<ge> 0x10 then 4 else if b \<ge> 0x08 then 5 else if b \<ge> 0x04 then 6
      else if b \<ge> 0x02 then 7 else 8)"

definition ebml_varint :: "bytes varint" where
  "ebml_varint =
     \<lparr> Parse = (\<lambda>data. case data of
                   [] \<Rightarrow> Inl (Upstream ''EOF'')
                 | b # rest \<Rightarrow>
                     if b = 0 then Inl (Upstream ''invalid varint'')
                     else if length data < varint_width b then Inl (Upstream ''unexpected EOF'')
                     else Inr (take (varint_width b) data)),
       Uint64 = (\<lambda>v. case v of
                   [] \<Rightarrow> Inl (Upstream ''empty varint'')
                 | b # rest \<Rightarrow>
                     Inr (foldl (\<lambda>acc x. push_bit 8 acc OR ucast x)
                            (ucast (b AND mask (8 - varint_width b))) rest)),
       Size = (\<lambda>v. Inr (int (length v))) \<rparr>"

definition el_cluster :: Elem where
  "el_cluster = \<lparr> Name = ''Cluster'', Level = 1, Bytes = Inr [], WriteTo = [0x1F, 0x43, 0xB6, 0x75, 0xFF] \<rparr>"

definition el_simple :: "byte \<Rightarrow> byte \<Rightarrow> Elem" where
  "el_simple track flags =
     \<lparr> Name = ''SimpleBlock'', Level = 2, Bytes = Inr [track, 0, 0, flags, 7],
       WriteTo = [0xA3, 0x85, track, 0, 0, flags, 7] \<rparr>"

definition el_void :: Elem where
  "el_void = \<lparr> Name = ''Void'', Level = 1, Bytes = Inr [], WriteTo = [0xEC, 0x80] \<rparr>"

definition el_block :: "bytes \<Rightarrow> Elem" where
  "el_block payload =
     \<lparr> Name = ''Block'', Level = 3, Bytes = Inr payload, WriteTo = [0xA1, 0x80] @ payload \<rparr>"

definition wk_sample :: WebmKeeper where
  "wk_sample =
     \<lparr> p = [Inr (el_simple 0x82 0x80), Inr el_cluster, Inr el_void],
       header = [0x1A, 0x45],
       body = [9, 9] @ WriteTo el_cluster @ WriteTo (el_simple 0x81 0x80),
       elemBuf = [], lastCluster = 2,
       trackBlockCount = Array2 1 0, trackBlockKeyframe = Array2 True False \<rparr>"

section \<open>Basic facts\<close>

lemma andThen_Inl [simp]: "andThen (Inl e) f = Inl e"
  by (simp add: andThen_def)

lemma andThen_Inr [simp]: "andThen (Inr x) f = f x"
  by (simp add: andThen_def)

lemma andThen_eq_Inr:
  "andThen r f = Inr y \<longleftrightarrow> (\<exists>x. r = Inr x \<and> f x = Inr y)"
  by (cases r) simp_all

lemma next_el_Inr [simp]: "next_el (Inr el # rest) = (Inr el, rest)"
  by (simp add: next_el_def)

lemma next_el_Inl [simp]: "next_el (Inl err # rest) = (Inl err, rest)"
  by (simp add: next_el_def)

lemma next_el_Nil [simp]: "next_el [] = (Inl StreamEnded, [])"
  by (simp add: next_el_def)

lemma sat_unat: "unat (if (c::byte) < 255 then c + 1 else c) = min 255 (unat c + 1)"
  by unat_arith auto

lemma lt_255_iff: "(c::byte) < 255 \<longleftrightarrow> c \<noteq> 255"
  by unat_arith auto

lemma handle_Cluster:
  "Name el = ''Cluster'' \<Longrightarrow>
     handleRandomAccessPoint V wk el =
       (None, wk\<lparr>lastCluster := length (body wk), trackBlockCount := Array2 0 0,
                  trackBlockKeyframe := Array2 False False\<rparr>)"
  by (simp add: handleRandomAccessPoint_def resetTracking_def)

lemma handle_other:
  "Name el \<noteq> ''Cluster'' \<Longrightarrow> Name el \<noteq> ''SimpleBlock'' \<Longrightarrow> Name el \<noteq> ''Block'' \<Longrightarrow>
     handleRandomAccessPoint V wk el = (None, wk)"
  by (simp add: handleRandomAccessPoint_def)

lemma handle_block_error:
  "Name el = ''SimpleBlock'' \<or> Name el = ''Block'' \<Longrightarrow> AsKeyBlock V el = Inl err \<Longrightarrow>
     handleRandomAccessPoint V wk el = (Some err, wk)"
  by (auto simp: handleRandomAccessPoint_def)

lemma handle_block_impossible:
  "Name el = ''SimpleBlock'' \<or> Name el = ''Block'' \<Longrightarrow> AsKeyBlock V el = Inr (t, kf) \<Longrightarrow>
   t < 1 \<or> 2 < t \<Longrightarrow>
     handleRandomAccessPoint V wk el = (Some (ImpossibleTrack t), wk)"
  by (auto simp: handleRandomAccessPoint_def)

lemma track_cases: "\<not> (2 < (t::uint64) \<or> t < 1) \<longleftrightarrow> t = 1 \<or> t = 2"
  by unat_arith

lemma handle_block:
  assumes "Name el = ''SimpleBlock'' \<or> Name el = ''Block''"
    and "AsKeyBlock V el = Inr (t, kf)" and "t = 1 \<or> t = 2"
    and "trackBlockCount wk = Array2 c0 c1" and "trackBlockKeyframe wk = Array2 k0 k1"
  shows "handleRandomAccessPoint V wk el =
     cutAtLastCluster
       (wk\<lparr>trackBlockCount := Array2 (if t = 1 then sat_inc c0 else c0)
                                      (if t = 2 then sat_inc c1 else c1),
            trackBlockKeyframe := Array2 (k0 \<or> t = 1 \<and> kf) (k1 \<or> t = 2 \<and> kf)\<rparr>)"
proof -
  have ne: "Name el \<noteq> ''Cluster''" using assms(1) by auto
  from assms(3) show ?thesis
  proof
    assume t: "t = 1"
    show ?thesis using assms(1,2,4,5) ne
      by (cases wk; cases kf)
         (auto simp: t handleRandomAccessPoint_def incTrackCount_def setKeyframe_def
            sat_inc_def lt_255_iff)
  next
    assume t: "t = 2"
    show ?thesis using assms(1,2,4,5) ne
      by (cases wk; cases kf)
         (auto simp: t handleRandomAccessPoint_def incTrackCount_def setKeyframe_def
            sat_inc_def lt_255_iff)
  qed
qed


lemma Next_el:
  assumes "next_el (p wk) = (Inr el, rest)"
  shows "Next V wk =
     (case handleRandomAccessPoint V (wk\<lparr>p := rest\<rparr>) el of
        (Some err, wk1) \<Rightarrow> (Inl err, wk1)
      | (None, wk1) \<Rightarrow>
          (Inr (WriteTo el), wk1\<lparr>elemBuf := WriteTo el, body := body wk1 @ WriteTo el\<rparr>))"
  using assms by (simp add: Next_def)

lemma Next_block:
  assumes nx: "next_el (p wk) = (Inr el, rest)"
    and inv: "lastCluster wk \<le> length (body wk)"
    and cs: "trackBlockCount wk = Array2 c0 c1" and ks: "trackBlockKeyframe wk = Array2 k0 k1"
    and blk: "Name el = ''SimpleBlock'' \<or> Name el = ''Block''"
    and dec: "AsKeyBlock V el = Inr (t, kf)" and t: "t = 1 \<or> t = 2"
    and c0': "c0' = (if t = 1 then sat_inc c0 else c0)"
    and c1': "c1' = (if t = 2 then sat_inc c1 else c1)"
    and k0': "k0' = (k0 \<or> t = 1 \<and> kf)"
    and k1': "k1' = (k1 \<or> t = 2 \<and> kf)"
    and rap: "rap = (c0' = 1 \<and> c1' = 1 \<and> k0' \<and> k1')"
  shows "Next V wk =
           (Inr (WriteTo el),
            wk\<lparr>p := rest, elemBuf := WriteTo el,
                trackBlockCount := Array2 c0' c1', trackBlockKeyframe := Array2 k0' k1',
                lastCluster := (if rap then 0 else lastCluster wk),
                body := (if rap then drop (lastCluster wk) (body wk) else body wk)
                          @ WriteTo el\<rparr>)"
proof -
  have h: "handleRandomAccessPoint V (wk\<lparr>p := rest\<rparr>) el =
     cutAtLastCluster
       (wk\<lparr>p := rest, trackBlockCount := Array2 c0' c1',
            trackBlockKeyframe := Array2 k0' k1'\<rparr>)"
    unfolding c0' c1' k0' k1' using blk dec t cs ks
    by (simp add: handle_block [where ?c0.0 = c0 and ?c1.0 = c1 and ?k0.0 = k0 and ?k1.0 = k1])
  show ?thesis
  proof (cases rap)
    case True
    then show ?thesis using inv rap
      unfolding Next_el [OF nx] h by (simp add: cutAtLastCluster_def)
  next
    case False
    then show ?thesis using rap
      unfolding Next_el [OF nx] h by (auto simp add: cutAtLastCluster_def)
  qed
qed

lemma Next_Cluster:
  "next_el (p wk) = (Inr el, rest) \<Longrightarrow> Name el = ''Cluster'' \<Longrightarrow>
     Next V wk =
       (Inr (WriteTo el),
        wk\<lparr>p := rest, elemBuf := WriteTo el, lastCluster := length (body wk),
            trackBlockCount := Array2 0 0, trackBlockKeyframe := Array2 False False,
            body := body wk @ WriteTo el\<rparr>)"
  by (simp add: Next_el handle_Cluster)

lemma Next_other:
  "next_el (p wk) = (Inr el, rest) \<Longrightarrow>
   Name el \<noteq> ''Cluster'' \<and> Name el \<noteq> ''SimpleBlock'' \<and> Name el \<noteq> ''Block'' \<Longrightarrow>
     Next V wk =
       (Inr (WriteTo el), wk\<lparr>p := rest, elemBuf := WriteTo el, body := body wk @ WriteTo el\<rparr>)"
  by (simp add: Next_el handle_other)

lemma Next_impossible:
  "next_el (p wk) = (Inr el, rest) \<Longrightarrow> Name el = ''SimpleBlock'' \<or> Name el = ''Block'' \<Longrightarrow>
   AsKeyBlock V el = Inr (t, kf) \<Longrightarrow> t < 1 \<or> 2 < t \<Longrightarrow>
     Next V wk = (Inl (ImpossibleTrack t), wk\<lparr>p := rest\<rparr>)"
  by (simp add: Next_el handle_block_impossible)

lemma header_cut: "header (snd (cutAtLastCluster wk)) = header wk"
  by (simp add: cutAtLastCluster_def)

lemma header_inc: "incTrackCount wk i = Inr wk' \<Longrightarrow> header wk' = header wk"
  by (auto simp: incTrackCount_def andThen_eq_Inr split: if_splits)

lemma header_setk: "setKeyframe wk i k = Inr wk' \<Longrightarrow> header wk' = header wk"
  by (auto simp: setKeyframe_def andThen_eq_Inr split: if_splits)

lemma header_handle: "header (snd (handleRandomAccessPoint V wk el)) = header wk"
  by (auto simp: handleRandomAccessPoint_def resetTracking_def header_cut andThen_eq_Inr
      split: sum.splits prod.splits dest!: header_inc header_setk)

lemma header_Next: "header (snd (Next V wk)) = header wk"
proof (cases "next_el (p wk)")
  case (Pair r rest)
  show ?thesis
  proof (cases r)
    case (Inl err)
    with Pair show ?thesis by (simp add: Next_def)
  next
    case (Inr el)
    have "header (snd (handleRandomAccessPoint V (wk\<lparr>p := rest\<rparr>) el)) = header wk"
      by (simp add: header_handle)
    with Pair Inr show ?thesis
      by (auto simp: Next_def split: prod.splits option.splits)
  qed
qed

lemma New_loop_Nil [simp]: "New_loop [] hdr bdy = Inl StreamEnded"
  by (subst New_loop.simps) simp

lemma New_loop_Inl [simp]: "New_loop (Inl err # rest) hdr bdy = Inl err"
  by (subst New_loop.simps) simp

lemma New_loop_Inr [simp]:
  "New_loop (Inr el # rest) hdr bdy =
     (if Name el = ''Cluster'' then Inr (rest, hdr, bdy @ WriteTo el)
      else New_loop rest (hdr @ WriteTo el) bdy)"
  by (subst New_loop.simps) simp

lemma New_loop_header:
  "\<forall>h\<in>set hs. Name h \<noteq> ''Cluster'' \<Longrightarrow>
     New_loop (map Inr hs @ src) hdr bdy = New_loop src (hdr @ concat (map WriteTo hs)) bdy"
  by (induction hs arbitrary: hdr) simp_all

lemmas sample_defs = wk_sample_def el_simple_def el_cluster_def el_void_def el_block_def

lemmas decode_defs = AsKeyBlock_def NewSimpleBlock_def parseAsSimpleBlock_def NewBlock_def
  parseAsBlock_def skip_lacing_def ebml_varint_def varint_width_def at_def slice_from_def
  mask_eq_exp_minus_1

section \<open>The keeper\<close>

text \<open>
  C1. The random-access-point rule. Let \<open>Next\<close> pull the element \<open>el\<close> from the source, in
  a keeper whose \<open>lastCluster\<close> lies inside \<open>body\<close> (so it is after \<open>New\<close> and after every
  \<open>Next\<close>), with counts \<open>c0, c1\<close> and keyframe flags \<open>k0, k1\<close>. Before \<open>el\<close> is appended to
  \<open>body\<close>: a Cluster sets \<open>lastCluster\<close> to the length of \<open>body\<close> and resets both counts to
  0 and both flags to false; a SimpleBlock or Block decoded to track \<open>t\<close> in {1, 2}
  saturating-increments the count of \<open>t - 1\<close>, sets its flag when the block is a keyframe,
  and exactly when then both counts are 1 and both flags hold, \<open>body\<close> becomes its suffix
  from \<open>lastCluster\<close> and \<open>lastCluster\<close> becomes 0; any other element changes none of them.
\<close>

theorem random_access_point_rule:
  assumes "next_el (p wk) = (Inr el, rest)"
    and "lastCluster wk \<le> length (body wk)"
    and "trackBlockCount wk = Array2 c0 c1" and "trackBlockKeyframe wk = Array2 k0 k1"
  shows
   "(Name el = ''Cluster'' \<longrightarrow>
       Next V wk =
         (Inr (WriteTo el),
          wk\<lparr>p := rest, elemBuf := WriteTo el,
              lastCluster := length (body wk),
              trackBlockCount := Array2 0 0, trackBlockKeyframe := Array2 False False,
              body := body wk @ WriteTo el\<rparr>)) \<and>
    ((Name el = ''SimpleBlock'' \<or> Name el = ''Block'') \<and>
       AsKeyBlock V el = Inr (t, kf) \<and> (t = 1 \<or> t = 2) \<longrightarrow>
       (let c0' = (if t = 1 then sat_inc c0 else c0);
            c1' = (if t = 2 then sat_inc c1 else c1);
            k0' = (k0 \<or> t = 1 \<and> kf);
            k1' = (k1 \<or> t = 2 \<and> kf);
            rap = (c0' = 1 \<and> c1' = 1 \<and> k0' \<and> k1')
        in Next V wk =
             (Inr (WriteTo el),
              wk\<lparr>p := rest, elemBuf := WriteTo el,
                  trackBlockCount := Array2 c0' c1', trackBlockKeyframe := Array2 k0' k1',
                  lastCluster := (if rap then 0 else lastCluster wk),
                  body := (if rap then drop (lastCluster wk) (body wk) else body wk)
                            @ WriteTo el\<rparr>))) \<and>
    (Name el \<noteq> ''Cluster'' \<and> Name el \<noteq> ''SimpleBlock'' \<and> Name el \<noteq> ''Block'' \<longrightarrow>
       Next V wk =
         (Inr (WriteTo el), wk\<lparr>p := rest, elemBuf := WriteTo el, body := body wk @ WriteTo el\<rparr>))"
proof (intro conjI impI)
  assume "Name el = ''Cluster''"
  then show "Next V wk =
         (Inr (WriteTo el),
          wk\<lparr>p := rest, elemBuf := WriteTo el,
              lastCluster := length (body wk),
              trackBlockCount := Array2 0 0, trackBlockKeyframe := Array2 False False,
              body := body wk @ WriteTo el\<rparr>)"
    by (rule Next_Cluster [OF assms(1)])
next
  assume "Name el \<noteq> ''Cluster'' \<and> Name el \<noteq> ''SimpleBlock'' \<and> Name el \<noteq> ''Block''"
  then show "Next V wk =
         (Inr (WriteTo el), wk\<lparr>p := rest, elemBuf := WriteTo el, body := body wk @ WriteTo el\<rparr>)"
    by (rule Next_other [OF assms(1)])
next
  assume a: "(Name el = ''SimpleBlock'' \<or> Name el = ''Block'') \<and>
       AsKeyBlock V el = Inr (t, kf) \<and> (t = 1 \<or> t = 2)"
  show "(let c0' = (if t = 1 then sat_inc c0 else c0);
            c1' = (if t = 2 then sat_inc c1 else c1);
            k0' = (k0 \<or> t = 1 \<and> kf);
            k1' = (k1 \<or> t = 2 \<and> kf);
            rap = (c0' = 1 \<and> c1' = 1 \<and> k0' \<and> k1')
        in Next V wk =
             (Inr (WriteTo el),
              wk\<lparr>p := rest, elemBuf := WriteTo el,
                  trackBlockCount := Array2 c0' c1', trackBlockKeyframe := Array2 k0' k1',
                  lastCluster := (if rap then 0 else lastCluster wk),
                  body := (if rap then drop (lastCluster wk) (body wk) else body wk)
                            @ WriteTo el\<rparr>))"
    unfolding Let_def
    by (rule Next_block [OF assms(1-4) _ _ _ refl refl refl refl refl]) (use a in simp_all)
qed

theorem random_access_point_rule_witness:
  "(next_el (p wk_sample) = (Inr (el_simple 0x82 0x80), [Inr el_cluster, Inr el_void]) \<and>
   lastCluster wk_sample \<le> length (body wk_sample) \<and>
   AsKeyBlock ebml_varint (el_simple 0x82 0x80) = Inr (2, True) \<and>
   Next ebml_varint wk_sample =
     (Inr (WriteTo (el_simple 0x82 0x80)),
      wk_sample\<lparr>p := [Inr el_cluster, Inr el_void], elemBuf := WriteTo (el_simple 0x82 0x80),
                trackBlockCount := Array2 1 1, trackBlockKeyframe := Array2 True True,
                lastCluster := 0,
                body := drop 2 (body wk_sample) @ WriteTo (el_simple 0x82 0x80)\<rparr>)) \<and>
   (Name el_cluster = ''Cluster'' \<and>
   Next ebml_varint (wk_sample\<lparr>p := [Inr el_cluster]\<rparr>) =
     (Inr (WriteTo el_cluster),
      wk_sample\<lparr>p := [], elemBuf := WriteTo el_cluster, lastCluster := 14,
                trackBlockCount := Array2 0 0, trackBlockKeyframe := Array2 False False,
                body := body wk_sample @ WriteTo el_cluster\<rparr>)) \<and>
   (Name el_void \<noteq> ''Cluster'' \<and> Name el_void \<noteq> ''SimpleBlock'' \<and> Name el_void \<noteq> ''Block'' \<and>
   Next ebml_varint (wk_sample\<lparr>p := [Inr el_void]\<rparr>) =
     (Inr (WriteTo el_void),
      wk_sample\<lparr>p := [], elemBuf := WriteTo el_void, body := body wk_sample @ WriteTo el_void\<rparr>))"
proof -
  have block: "next_el (p wk_sample) = (Inr (el_simple 0x82 0x80), [Inr el_cluster, Inr el_void]) \<and>
   lastCluster wk_sample \<le> length (body wk_sample) \<and>
   AsKeyBlock ebml_varint (el_simple 0x82 0x80) = Inr (2, True) \<and>
   Next ebml_varint wk_sample =
     (Inr (WriteTo (el_simple 0x82 0x80)),
      wk_sample\<lparr>p := [Inr el_cluster, Inr el_void], elemBuf := WriteTo (el_simple 0x82 0x80),
                trackBlockCount := Array2 1 1, trackBlockKeyframe := Array2 True True,
                lastCluster := 0,
                body := drop 2 (body wk_sample) @ WriteTo (el_simple 0x82 0x80)\<rparr>)"
  proof -
    have nx: "next_el (p wk_sample) = (Inr (el_simple 0x82 0x80), [Inr el_cluster, Inr el_void])"
      by (simp add: wk_sample_def)
    have inv: "lastCluster wk_sample \<le> length (body wk_sample)"
      by (simp add: sample_defs)
    have cs: "trackBlockCount wk_sample = Array2 1 0" by (simp add: wk_sample_def)
    have ks: "trackBlockKeyframe wk_sample = Array2 True False" by (simp add: wk_sample_def)
    have dec: "AsKeyBlock ebml_varint (el_simple 0x82 0x80) = Inr (2, True)"
      by (simp add: el_simple_def decode_defs)
    have nm: "Name (el_simple 0x82 0x80) = ''SimpleBlock''" by (simp add: el_simple_def)
    have lc: "lastCluster wk_sample = 2" by (simp add: wk_sample_def)
    from random_access_point_rule [OF nx inv cs ks, of ebml_varint 2 True] dec nm lc
    have "Next ebml_varint wk_sample =
       (Inr (WriteTo (el_simple 0x82 0x80)),
        wk_sample\<lparr>p := [Inr el_cluster, Inr el_void], elemBuf := WriteTo (el_simple 0x82 0x80),
                  trackBlockCount := Array2 1 1, trackBlockKeyframe := Array2 True True,
                  lastCluster := 0,
                  body := drop 2 (body wk_sample) @ WriteTo (el_simple 0x82 0x80)\<rparr>)"
      by (simp add: Let_def sat_inc_def)
    with nx inv dec show ?thesis by simp
  qed
  have cluster: "Name el_cluster = ''Cluster'' \<and>
   Next ebml_varint (wk_sample\<lparr>p := [Inr el_cluster]\<rparr>) =
     (Inr (WriteTo el_cluster),
      wk_sample\<lparr>p := [], elemBuf := WriteTo el_cluster, lastCluster := 14,
                trackBlockCount := Array2 0 0, trackBlockKeyframe := Array2 False False,
                body := body wk_sample @ WriteTo el_cluster\<rparr>)"
  proof -
    have nx: "next_el (p (wk_sample\<lparr>p := [Inr el_cluster]\<rparr>)) = (Inr el_cluster, [])"
      by simp
    have inv: "lastCluster (wk_sample\<lparr>p := [Inr el_cluster]\<rparr>)
        \<le> length (body (wk_sample\<lparr>p := [Inr el_cluster]\<rparr>))"
      by (simp add: sample_defs)
    have cs: "trackBlockCount (wk_sample\<lparr>p := [Inr el_cluster]\<rparr>) = Array2 1 0"
      by (simp add: wk_sample_def)
    have ks: "trackBlockKeyframe (wk_sample\<lparr>p := [Inr el_cluster]\<rparr>) = Array2 True False"
      by (simp add: wk_sample_def)
    have nm: "Name el_cluster = ''Cluster''" by (simp add: el_cluster_def)
    have len: "length (body wk_sample) = 14" by (simp add: sample_defs)
    from random_access_point_rule [OF nx inv cs ks, of ebml_varint 0 False] nm len
    show ?thesis by simp
  qed
  have other: "Name el_void \<noteq> ''Cluster'' \<and> Name el_void \<noteq> ''SimpleBlock'' \<and> Name el_void \<noteq> ''Block'' \<and>
   Next ebml_varint (wk_sample\<lparr>p := [Inr el_void]\<rparr>) =
     (Inr (WriteTo el_void),
      wk_sample\<lparr>p := [], elemBuf := WriteTo el_void, body := body wk_sample @ WriteTo el_void\<rparr>)"
  proof -
    have nx: "next_el (p (wk_sample\<lparr>p := [Inr el_void]\<rparr>)) = (Inr el_void, [])"
      by simp
    have inv: "lastCluster (wk_sample\<lparr>p := [Inr el_void]\<rparr>)
        \<le> length (body (wk_sample\<lparr>p := [Inr el_void]\<rparr>))"
      by (simp add: sample_defs)
    have cs: "trackBlockCount (wk_sample\<lparr>p := [Inr el_void]\<rparr>) = Array2 1 0"
      by (simp add: wk_sample_def)
    have ks: "trackBlockKeyframe (wk_sample\<lparr>p := [Inr el_void]\<rparr>) = Array2 True False"
      by (simp add: wk_sample_def)
    have nm: "Name el_void = ''Void''" by (simp add: el_void_def)
    from random_access_point_rule [OF nx inv cs ks, of ebml_varint 0 False] nm
    show ?thesis by simp
  qed
  from block cluster other show ?thesis by blast
qed

text \<open>
  C5. For a SimpleBlock or Block element whose payload decodes to track \<open>t\<close>, in a keeper
  whose \<open>lastCluster\<close> lies inside \<open>body\<close>, \<open>Next\<close> returns an error exactly when \<open>t < 1\<close> or
  \<open>t > 2\<close>; the error is then the impossible-track error, and \<open>body\<close> and \<open>header\<close> are as
  before the call.
\<close>

theorem impossible_track_rejected:
  assumes "next_el (p wk) = (Inr el, rest)"
    and "Name el = ''SimpleBlock'' \<or> Name el = ''Block''"
    and "AsKeyBlock V el = Inr (t, kf)"
    and "lastCluster wk \<le> length (body wk)"
  shows "((\<exists>err. fst (Next V wk) = Inl err) \<longleftrightarrow> t < 1 \<or> 2 < t) \<and>
         (t < 1 \<or> 2 < t \<longrightarrow>
            fst (Next V wk) = Inl (ImpossibleTrack t) \<and>
            body (snd (Next V wk)) = body wk \<and> header (snd (Next V wk)) = header wk)"
proof (cases "t < 1 \<or> 2 < t")
  case True
  then show ?thesis
    by (simp add: Next_impossible [OF assms(1,2,3)])
next
  case False
  then have t: "t = 1 \<or> t = 2" using track_cases [of t] by auto
  obtain c0 c1 where c: "trackBlockCount wk = Array2 c0 c1" by (cases "trackBlockCount wk")
  obtain k0 k1 where k: "trackBlockKeyframe wk = Array2 k0 k1" by (cases "trackBlockKeyframe wk")
  have "fst (Next V wk) = Inr (WriteTo el)"
    by (simp add: Next_block [OF assms(1) assms(4) c k assms(2) assms(3) t refl refl refl refl refl])
  then show ?thesis using False by simp
qed

theorem impossible_track_rejected_witness:
  "next_el (p (wk_sample\<lparr>p := [Inr (el_simple 0x83 0x00)]\<rparr>)) = (Inr (el_simple 0x83 0x00), []) \<and>
   Name (el_simple 0x83 0x00) = ''SimpleBlock'' \<and>
   AsKeyBlock ebml_varint (el_simple 0x83 0x00) = Inr (3, False) \<and>
   lastCluster wk_sample \<le> length (body wk_sample) \<and>
   fst (Next ebml_varint (wk_sample\<lparr>p := [Inr (el_simple 0x83 0x00)]\<rparr>)) = Inl (ImpossibleTrack 3) \<and>
   body (snd (Next ebml_varint (wk_sample\<lparr>p := [Inr (el_simple 0x83 0x00)]\<rparr>))) = body wk_sample \<and>
   header (snd (Next ebml_varint (wk_sample\<lparr>p := [Inr (el_simple 0x83 0x00)]\<rparr>))) = header wk_sample"
proof -
  let ?wk = "wk_sample\<lparr>p := [Inr (el_simple 0x83 0x00)]\<rparr>"
  have nx: "next_el (p ?wk) = (Inr (el_simple 0x83 0x00), [])" by simp
  have nm: "Name (el_simple 0x83 0x00) = ''SimpleBlock'' \<or> Name (el_simple 0x83 0x00) = ''Block''"
    by (simp add: el_simple_def)
  have dec: "AsKeyBlock ebml_varint (el_simple 0x83 0x00) = Inr (3, False)"
    by (simp add: el_simple_def decode_defs)
  have inv: "lastCluster ?wk \<le> length (body ?wk)" by (simp add: sample_defs)
  have t: "(3::uint64) < 1 \<or> 2 < (3::uint64)" by simp
  from impossible_track_rejected [OF nx nm dec inv] t nx dec inv
  show ?thesis by (simp add: el_simple_def)
qed

text \<open>
  C6. No operation on a keeper changes \<open>header\<close>: not \<open>Next\<close>, not
  \<open>handleRandomAccessPoint\<close>, and so no sequence of \<open>Next\<close>, \<open>handleRandomAccessPoint\<close> and
  \<open>Bootstrap\<close>; after any such sequence \<open>header\<close> is what it was at the end of \<open>New\<close>.
\<close>

theorem header_immutable:
  "header (snd (Next V wk)) = header wk \<and>
   header (snd (handleRandomAccessPoint V wk el)) = header wk \<and>
   header (foldl (apply_op V) wk ops) = header wk"
proof -
  have "header (foldl (apply_op V) wk ops) = header wk"
  proof (induction ops arbitrary: wk)
    case Nil
    show ?case by simp
  next
    case (Cons op ops)
    have "header (apply_op V wk op) = header wk"
      by (cases op) (simp_all add: header_Next header_handle)
    with Cons show ?case by simp
  qed
  then show ?thesis by (simp add: header_Next header_handle)
qed

text \<open>
  C4. \<open>New\<close> on a source whose elements \<open>hs\<close> before the first Cluster \<open>c\<close> are not named
  Cluster returns the keeper with \<open>header\<close> the serialized \<open>hs\<close> in order, \<open>body\<close> the
  bytes of \<open>c\<close> and the source left after \<open>c\<close>; when the source fails after \<open>hs\<close>, or ends
  after \<open>hs\<close>, \<open>New\<close> returns that error, or the end-of-stream error, and no keeper.
\<close>

theorem New_splits_at_first_Cluster:
  assumes "\<forall>h\<in>set hs. Name h \<noteq> ''Cluster''"
  shows "(Name c = ''Cluster'' \<longrightarrow>
            New (map Inr hs @ Inr c # rest) =
              Inr \<lparr> p = rest, header = concat (map WriteTo hs), body = WriteTo c,
                    elemBuf = [], lastCluster = 0,
                    trackBlockCount = Array2 0 0,
                    trackBlockKeyframe = Array2 False False \<rparr>) \<and>
         New (map Inr hs @ Inl err # rest) = Inl err \<and>
         New (map Inr hs) = Inl StreamEnded"
proof -
  have "New_loop (map Inr hs @ []) [] [] = New_loop [] ([] @ concat (map WriteTo hs)) []"
    by (rule New_loop_header [OF assms])
  then have "New (map Inr hs) = Inl StreamEnded"
    by (simp add: New_def)
  then show ?thesis
    by (simp add: New_def New_loop_header [OF assms])
qed

theorem New_splits_at_first_Cluster_witness:
  "Name el_void \<noteq> ''Cluster'' \<and> Name el_cluster = ''Cluster'' \<and>
   New [Inr el_void, Inr el_cluster, Inr (el_simple 0x81 0x80)] =
     Inr \<lparr> p = [Inr (el_simple 0x81 0x80)], header = WriteTo el_void, body = WriteTo el_cluster,
           elemBuf = [], lastCluster = 0,
           trackBlockCount = Array2 0 0, trackBlockKeyframe = Array2 False False \<rparr> \<and>
   New [Inr el_void, Inl (Upstream ''malformed''), Inr el_cluster] = Inl (Upstream ''malformed'') \<and>
   New [Inr el_void] = Inl StreamEnded"
proof -
  have hs: "\<forall>h\<in>set [el_void]. Name h \<noteq> ''Cluster''" by (simp add: el_void_def)
  have nm: "Name el_cluster = ''Cluster''" by (simp add: el_cluster_def)
  from New_splits_at_first_Cluster [OF hs, of el_cluster "[Inr (el_simple 0x81 0x80)]"]
    New_splits_at_first_Cluster [OF hs, of el_cluster "[Inr el_cluster]" "Upstream ''malformed''"]
    hs nm
  show ?thesis by simp
qed

section \<open>The block decoder\<close>

text \<open>
  C10. For every element whose name is neither "SimpleBlock" nor "Block", AsKeyBlock
  returns track number 0, keyframe false and no error, whatever the payload of the element
  is (also one that cannot be read).
\<close>

theorem AsKeyBlock_other:
  "Name e \<noteq> ''SimpleBlock'' \<and> Name e \<noteq> ''Block'' \<longrightarrow>
     AsKeyBlock V e = Inr (0, False) \<and>
     (\<forall>payload. AsKeyBlock V (e\<lparr>Bytes := payload\<rparr>) = Inr (0, False))"
  by (simp add: AsKeyBlock_def)

theorem AsKeyBlock_other_witness:
  "Name el_void \<noteq> ''SimpleBlock'' \<and> Name el_void \<noteq> ''Block'' \<and>
   AsKeyBlock ebml_varint el_void = Inr (0, False) \<and>
   AsKeyBlock ebml_varint (el_void\<lparr>Bytes := Inl (Upstream ''closed'')\<rparr>) = Inr (0, False)"
  using AsKeyBlock_other [of el_void ebml_varint] by (simp add: el_void_def)

end
